theory Spec2Isabelle
  imports Main
begin

section \<open>Python strings\<close>

text \<open>
  A Python \<open>str\<close> is modelled as a \<open>string\<close>; a \<open>char\<close> stands for a code point below
  256, so the character classes below are the ones of Python on that range.
\<close>

definition py_isspace :: "char \<Rightarrow> bool" where
  \<comment> \<open>\<open>str.isspace\<close> for one character: TAB..CR, FS..US, space, NEL and NBSP.\<close>
  "py_isspace c =
     (let n = (of_char c :: nat)
      in (9 \<le> n \<and> n \<le> 13) \<or> (28 \<le> n \<and> n \<le> 32) \<or> n = 133 \<or> n = 160)"

definition py_isdigit :: "char \<Rightarrow> bool" where
  \<comment> \<open>\<open>str.isdigit\<close> for one character: 0..9 and the superscripts two, three and one.\<close>
  "py_isdigit c =
     (let n = (of_char c :: nat)
      in (48 \<le> n \<and> n \<le> 57) \<or> n = 178 \<or> n = 179 \<or> n = 185)"

definition py_lower_char :: "char \<Rightarrow> char" where
  "py_lower_char c =
     (let n = (of_char c :: nat)
      in if (65 \<le> n \<and> n \<le> 90) \<or> (192 \<le> n \<and> n \<le> 222 \<and> n \<noteq> 215)
         then char_of (n + 32) else c)"

definition lower :: "string \<Rightarrow> string" where
  "lower s = map py_lower_char s"

definition lstrip :: "string \<Rightarrow> string" where
  "lstrip s = dropWhile py_isspace s"

definition strip :: "string \<Rightarrow> string" where
  \<comment> \<open>\<open>str.strip()\<close>: whitespace removed at both ends.\<close>
  "strip s = rev (lstrip (rev (lstrip s)))"

definition startswith :: "string \<Rightarrow> string \<Rightarrow> bool" where
  "startswith s p = (take (length p) s = p)"

section \<open>The parser\<close>

text \<open>
  \<open>HTMLParser.feed\<close> of the standard library tokenises the markup and calls the three
  handlers of \<open>SimpleHTMLParser\<close>; a document is modelled by the calls it makes. Tag and
  attribute names arrive in lower case, and an attribute without a value is delivered
  with the value \<open>None\<close>.
\<close>

type_synonym attrs = "(string \<times> string option) list"

datatype event =
    StartTag string attrs
  | EndTag string
  | Data string

record link =
  link_text :: string
  href :: string

record SimpleHTMLParser =
  title :: string
  in_title :: bool
  headings :: "string list"
  in_heading :: bool
  current_heading :: string
  links :: "link list"
  paragraphs :: "string list"
  in_paragraph :: bool
  current_paragraph :: string
  meta_description :: "string option"

definition init :: SimpleHTMLParser where
  "init = \<lparr> title = '''', in_title = False, headings = [], in_heading = False,
            current_heading = '''', links = [], paragraphs = [], in_paragraph = False,
            current_paragraph = '''', meta_description = None \<rparr>"

definition is_heading_tag :: "string \<Rightarrow> bool" where
  \<comment> \<open>\<open>tag.startswith('h') and len(tag) == 2 and tag[1].isdigit()\<close>\<close>
  "is_heading_tag tag = (startswith tag ''h'' \<and> length tag = 2 \<and> py_isdigit (tag ! 1))"

definition first_href :: "attrs \<Rightarrow> string option" where
  \<comment> \<open>\<open>next((attr[1] for attr in attrs if attr[0] == 'href'), None)\<close>\<close>
  "first_href as = (case find (\<lambda>a. fst a = ''href'') as of None \<Rightarrow> None | Some a \<Rightarrow> snd a)"

definition truthy :: "string option \<Rightarrow> bool" where
  \<comment> \<open>the truth value of an optional string: neither \<open>None\<close> nor empty\<close>
  "truthy v = (case v of None \<Rightarrow> False | Some s \<Rightarrow> s \<noteq> [])"

fun meta_scan :: "bool \<times> string option \<Rightarrow> attrs \<Rightarrow> bool \<times> string option" where
  \<comment> \<open>the loop over the attributes of a \<open>meta\<close> tag, on \<open>(is_description, content)\<close>\<close>
  "meta_scan (is_description, content) [] = (is_description, content)"
| "meta_scan (is_description, content) ((name, v) # as) =
     (if name = ''name'' \<and> v \<noteq> None
      then (if lower (the v) = ''description''
            then meta_scan (True, content) as
            else meta_scan (is_description, content) as)
      else if name = ''content''
      then meta_scan (is_description, v) as
      else meta_scan (is_description, content) as)"

definition handle_starttag :: "SimpleHTMLParser \<Rightarrow> string \<Rightarrow> attrs \<Rightarrow> SimpleHTMLParser" where
  "handle_starttag s tag as =
     (if tag = ''title'' then s\<lparr>in_title := True\<rparr>
      else if is_heading_tag tag then s\<lparr>in_heading := True, current_heading := ''''\<rparr>
      else if tag = ''a'' then
        (case first_href as of
           None \<Rightarrow> s
         | Some h \<Rightarrow> if h \<noteq> [] then s\<lparr>links := links s @ [\<lparr>link_text = '''', href = h\<rparr>]\<rparr>
                     else s)
      else if tag = ''p'' then s\<lparr>in_paragraph := True, current_paragraph := ''''\<rparr>
      else if tag = ''meta'' then
        (case meta_scan (False, None) as of
           (is_description, content) \<Rightarrow>
             if is_description \<and> truthy content then s\<lparr>meta_description := content\<rparr> else s)
      else s)"

definition handle_endtag :: "SimpleHTMLParser \<Rightarrow> string \<Rightarrow> SimpleHTMLParser" where
  "handle_endtag s tag =
     (if tag = ''title'' then s\<lparr>in_title := False\<rparr>
      else if is_heading_tag tag then
        (let s1 = s\<lparr>in_heading := False\<rparr>
         in if strip (current_heading s1) \<noteq> []
            then s1\<lparr>headings := headings s1 @ [strip (current_heading s1)]\<rparr> else s1)
      else if tag = ''p'' then
        (let s1 = s\<lparr>in_paragraph := False\<rparr>
         in if strip (current_paragraph s1) \<noteq> []
            then s1\<lparr>paragraphs := paragraphs s1 @ [strip (current_paragraph s1)]\<rparr> else s1)
      else s)"

definition handle_data :: "SimpleHTMLParser \<Rightarrow> string \<Rightarrow> SimpleHTMLParser" where
  \<comment> \<open>every entry of \<open>links\<close> has the key \<open>text\<close>, so \<open>'text' in self.links[-1]\<close> holds\<close>
  "handle_data s d =
     (let s1 = (if in_title s then s\<lparr>title := title s @ d\<rparr>
                else if in_heading s then s\<lparr>current_heading := current_heading s @ d\<rparr>
                else if in_paragraph s then s\<lparr>current_paragraph := current_paragraph s @ d\<rparr>
                else s)
      in if links s1 \<noteq> [] \<and> link_text (last (links s1)) = []
         then s1\<lparr>links := butlast (links s1) @ [(last (links s1))\<lparr>link_text := strip d\<rparr>]\<rparr>
         else s1)"

fun handle :: "SimpleHTMLParser \<Rightarrow> event \<Rightarrow> SimpleHTMLParser" where
  "handle s (StartTag tag as) = handle_starttag s tag as"
| "handle s (EndTag tag) = handle_endtag s tag"
| "handle s (Data d) = handle_data s d"

definition feed :: "SimpleHTMLParser \<Rightarrow> event list \<Rightarrow> SimpleHTMLParser" where
  \<comment> \<open>the handler calls of one document, in order\<close>
  "feed s evs = foldl handle s evs"

section \<open>The orchestrator\<close>

record page_data =
  page_title :: string
  url :: string
  heading :: "string option"
  metaDescription :: "string option"
  page_links :: "link list"
  page_paragraphs :: "string list"
  timestamp :: string

record error_info =
  error_message :: string
  error_type :: string

datatype fetch_result =
    Scraped string string page_data
  | Failed string string error_info

text \<open>
  The dictionaries of \<open>scrape_website\<close>: \<open>Scraped source_url scraped_at data\<close> and
  \<open>Failed source_url scraped_at error\<close>.
\<close>

datatype file_content = Dumped fetch_result | Incomplete

text \<open>
  What \<open>scraped_data.json\<close> holds: the whole text that \<open>json.dump\<close> makes of a dictionary,
  or, after a write that was opened and did not complete, an empty file or a part of
  such a text.
\<close>

record py_exn =
  exn_type_name :: string
  exn_str :: string
  exn_is_url_error :: bool

text \<open>
  An exception of class \<open>Exception\<close>: \<open>type(e).__name__\<close>, \<open>str(e)\<close>, and whether it is
  an instance of \<open>URLError\<close> (of which \<open>HTTPError\<close> is a subclass).
\<close>

datatype write_outcome = Written | OpenFails py_exn | DumpFails py_exn

record env =
  urlopen_read :: "string \<Rightarrow> py_exn + string"
  tokenize :: "string \<Rightarrow> event list"
  now :: "nat \<Rightarrow> string"
  snapshot_write :: "nat \<Rightarrow> write_outcome"

text \<open>
  What the run meets outside the program: the outcome of \<open>Request\<close>, \<open>urlopen\<close>, \<open>read\<close> and
  \<open>decode\<close> for a URL (the decoded text, or the exception raised); the handler calls that
  \<open>HTMLParser.feed\<close> makes on a text; the successive readings of
  \<open>datetime.now().isoformat()\<close>; and the outcome of the successive attempts to write
  \<open>scraped_data.json\<close>: the \<open>with\<close> block completes; or \<open>open\<close> raises and the file is
  untouched; or the file is opened, and so truncated, and \<open>json.dump\<close> or the closing of
  the file raises.
\<close>

datatype level = INFO | ERROR

record world =
  clock_reads :: nat
  opens :: nat
  snapshot :: "file_content option"
  logged :: "(level \<times> string) list"

definition log_msg :: "level \<Rightarrow> string \<Rightarrow> world \<Rightarrow> world" where
  "log_msg l m w = w\<lparr>logged := logged w @ [(l, m)]\<rparr>"

definition read_clock :: "env \<Rightarrow> world \<Rightarrow> string \<times> world" where
  "read_clock e w = (now e (clock_reads w), w\<lparr>clock_reads := Suc (clock_reads w)\<rparr>)"

definition write_snapshot :: "env \<Rightarrow> fetch_result \<Rightarrow> world \<Rightarrow> py_exn option \<times> world" where
  \<comment> \<open>\<open>with open('scraped_data.json', 'w', ...) as f: json.dump(r, f, indent=2)\<close>:
      the exception raised, if any, and the world afterwards\<close>
  "write_snapshot e r w =
     (case snapshot_write e (opens w) of
        OpenFails ex \<Rightarrow> (Some ex, w\<lparr>opens := Suc (opens w)\<rparr>)
      | DumpFails ex \<Rightarrow> (Some ex, w\<lparr>opens := Suc (opens w), snapshot := Some Incomplete\<rparr>)
      | Written \<Rightarrow> (None, w\<lparr>opens := Suc (opens w), snapshot := Some (Dumped r)\<rparr>))"

definition build_data :: "string \<Rightarrow> string \<Rightarrow> SimpleHTMLParser \<Rightarrow> page_data" where
  \<comment> \<open>the dictionary \<open>data\<close>\<close>
  "build_data u t p =
     \<lparr> page_title = title p, url = u,
       heading = (if headings p \<noteq> [] then Some (headings p ! 0) else None),
       metaDescription = meta_description p,
       page_links = take 20 (links p),
       page_paragraphs = take 10 (paragraphs p),
       timestamp = t \<rparr>"

definition except_handler ::
  "string \<Rightarrow> env \<Rightarrow> string \<Rightarrow> py_exn \<Rightarrow> world \<Rightarrow> (py_exn + fetch_result) \<times> world" where
  \<comment> \<open>the body of either \<open>except\<close> clause; an exception raised in it leaves the function\<close>
  "except_handler prefix e u ex w =
     (let w1 = log_msg ERROR (prefix @ exn_str ex) w;
          (t, w2) = read_clock e w1;
          error_data = Failed u t \<lparr>error_message = exn_str ex, error_type = exn_type_name ex\<rparr>
      in case write_snapshot e error_data w2 of
           (Some ex2, w3) \<Rightarrow> (Inl ex2, w3)
         | (None, w3) \<Rightarrow> (Inr error_data, log_msg ERROR ''Error data saved to scraped_data.json'' w3))"

definition except_clauses ::
  "env \<Rightarrow> string \<Rightarrow> py_exn \<Rightarrow> world \<Rightarrow> (py_exn + fetch_result) \<times> world" where
  \<comment> \<open>\<open>except (URLError, HTTPError)\<close>, then \<open>except Exception\<close>\<close>
  "except_clauses e u ex w =
     (if exn_is_url_error ex then except_handler ''Error fetching URL: '' e u ex w
      else except_handler ''Unexpected error: '' e u ex w)"

definition scrape_website :: "env \<Rightarrow> string \<Rightarrow> world \<Rightarrow> (py_exn + fetch_result) \<times> world" where
  "scrape_website e u w =
     (let w0 = log_msg INFO (''Starting to fetch: '' @ u) w
      in case urlopen_read e u of
           Inl ex \<Rightarrow> except_clauses e u ex w0
         | Inr html_content \<Rightarrow>
             (let w1 = log_msg INFO ''Page fetched successfully, parsing content...'' w0;
                  parser = feed init (tokenize e html_content);
                  (t1, w2) = read_clock e w1;
                  data = build_data u t1 parser;
                  (t2, w3) = read_clock e w2;
                  scraped_data = Scraped u t2 data
              in case write_snapshot e scraped_data w3 of
                   (Some ex, w4) \<Rightarrow> except_clauses e u ex w4
                 | (None, w4) \<Rightarrow> (Inr scraped_data, log_msg INFO ''Data saved to scraped_data.json'' w4)))"

definition url_to_scrape :: "string list \<Rightarrow> (string \<rightharpoonup> string) \<Rightarrow> string option" where
  \<comment> \<open>\<open>sys.argv[1] if len(sys.argv) > 1 else os.environ.get('SCRAPE_URL')\<close>\<close>
  "url_to_scrape argv environ = (if length argv > 1 then Some (argv ! 1) else environ ''SCRAPE_URL'')"

definition main :: "env \<Rightarrow> string list \<Rightarrow> (string \<rightharpoonup> string) \<Rightarrow> world \<Rightarrow> int \<times> world" where
  \<comment> \<open>the exit status of the script; \<open>sys.exit(0)\<close> raises \<open>SystemExit\<close>, which
      \<open>except Exception\<close> does not catch\<close>
  "main e argv environ w =
     (case url_to_scrape argv environ of
        None \<Rightarrow> (1, log_msg ERROR ''No URL specified. Use python fetch_data.py [URL] or set the SCRAPE_URL environment variable.'' w)
      | Some u \<Rightarrow>
          if u = [] then (1, log_msg ERROR ''No URL specified. Use python fetch_data.py [URL] or set the SCRAPE_URL environment variable.'' w)
          else (case scrape_website e u w of
                  (Inr r, w1) \<Rightarrow> (0, log_msg INFO ''Fetching completed successfully'' w1)
                | (Inl ex, w1) \<Rightarrow> (1, log_msg ERROR (''Fetching failed: '' @ exn_str ex) w1)))"

section \<open>Documents\<close>

text \<open>
  The properties of whole documents are stated on the handler calls of a document in which every
  \<open>title\<close>, heading and \<open>p\<close> element is written with both of its tags and none of them lies
  inside another one. A block is such an element (or any other element) with the handler
  calls of its content, or a single call outside of them. The text of an element is the
  concatenation of the character data in its content.
\<close>

definition structural_tag :: "string \<Rightarrow> bool" where
  "structural_tag tag = (tag = ''title'' \<or> is_heading_tag tag \<or> tag = ''p'')"

fun structural :: "event \<Rightarrow> bool" where
  "structural (StartTag tag as) = structural_tag tag"
| "structural (EndTag tag) = structural_tag tag"
| "structural (Data d) = False"

fun text_of :: "event list \<Rightarrow> string" where
  "text_of [] = []"
| "text_of (Data d # es) = d @ text_of es"
| "text_of (e # es) = text_of es"

datatype block = Element string attrs "event list" | Other event

fun events :: "block \<Rightarrow> event list" where
  "events (Element tag as c) = StartTag tag as # c @ [EndTag tag]"
| "events (Other e) = [e]"

fun wf_block :: "block \<Rightarrow> bool" where
  "wf_block (Element tag as c) = list_all (\<lambda>e. \<not> structural e) c"
| "wf_block (Other e) = (\<not> structural e)"

definition document :: "block list \<Rightarrow> event list" where
  "document bs = concat (map events bs)"

fun texts :: "(string \<Rightarrow> bool) \<Rightarrow> block list \<Rightarrow> string list" where
  \<comment> \<open>the texts of the elements whose tag satisfies \<open>P\<close>, in document order\<close>
  "texts P [] = []"
| "texts P (Element tag as c # bs) = (if P tag then text_of c # texts P bs else texts P bs)"
| "texts P (Other e # bs) = texts P bs"

definition nonempty_trimmed :: "string list \<Rightarrow> string list" where
  \<comment> \<open>each text trimmed, those that are empty after trimming left out\<close>
  "nonempty_trimmed ts = filter (\<lambda>t. t \<noteq> []) (map strip ts)"

section \<open>Notions of the specification\<close>

text \<open>
  The attributes of a \<open>meta\<close> tag, as the specification words them: some \<open>name\<close>
  attribute has a value that is \<open>description\<close> in any letter case, and the value of the
  \<open>content\<close> attribute (of the last one, when the tag repeats it).
\<close>

definition names_description :: "attrs \<Rightarrow> bool" where
  "names_description as =
     list_ex (\<lambda>a. fst a = ''name'' \<and> (case snd a of None \<Rightarrow> False | Some x \<Rightarrow> lower x = ''description'')) as"

definition content_attr :: "attrs \<Rightarrow> string option" where
  "content_attr as = (case filter (\<lambda>a. fst a = ''content'') as of [] \<Rightarrow> None | cs \<Rightarrow> snd (last cs))"

text \<open>
  The contents recorded by the description tags of a document, and the addresses of its
  anchors, in document order: a tag counts when its content, or the value of its first
  \<open>href\<close> attribute, is a non-empty string.
\<close>

fun descriptions :: "event list \<Rightarrow> string list" where
  "descriptions [] = []"
| "descriptions (StartTag tag as # es) =
     (if tag = ''meta'' \<and> names_description as
      then (case content_attr as of
              None \<Rightarrow> descriptions es
            | Some c \<Rightarrow> if c \<noteq> [] then c # descriptions es else descriptions es)
      else descriptions es)"
| "descriptions (e # es) = descriptions es"

fun hrefs :: "event list \<Rightarrow> string list" where
  "hrefs [] = []"
| "hrefs (StartTag tag as # es) =
     (if tag = ''a''
      then (case first_href as of
              None \<Rightarrow> hrefs es
            | Some h \<Rightarrow> if h \<noteq> [] then h # hrefs es else hrefs es)
      else hrefs es)"
| "hrefs (e # es) = hrefs es"

definition flags_clear :: "SimpleHTMLParser \<Rightarrow> bool" where
  "flags_clear s = (\<not> in_title s \<and> \<not> in_heading s \<and> \<not> in_paragraph s)"

subsection \<open>Sample inputs\<close>

definition url_error :: py_exn where
  "url_error = \<lparr> exn_type_name = ''URLError'',
                 exn_str = ''<urlopen error [Errno 111] Connection refused>'',
                 exn_is_url_error = True \<rparr>"

definition permission_error :: py_exn where
  "permission_error = \<lparr> exn_type_name = ''PermissionError'',
                        exn_str = ''[Errno 13] Permission denied'',
                        exn_is_url_error = False \<rparr>"

definition unreachable :: env where
  "unreachable = \<lparr> urlopen_read = (\<lambda>u. Inl url_error), tokenize = (\<lambda>h. []),
                   now = (\<lambda>n. ''2024-01-01T00:00:00''), snapshot_write = (\<lambda>n. Written) \<rparr>"

definition read_only :: env where
  "read_only = \<lparr> urlopen_read = (\<lambda>u. Inl url_error), tokenize = (\<lambda>h. []),
                 now = (\<lambda>n. ''2024-01-01T00:00:00''),
                 snapshot_write = (\<lambda>n. OpenFails permission_error) \<rparr>"

definition no_space_error :: py_exn where
  "no_space_error = \<lparr> exn_type_name = ''OSError'',
                      exn_str = ''[Errno 28] No space left on device'',
                      exn_is_url_error = False \<rparr>"

definition disk_full :: env where
  "disk_full = \<lparr> urlopen_read = (\<lambda>u. Inl url_error), tokenize = (\<lambda>h. []),
                 now = (\<lambda>n. ''2024-01-01T00:00:00''),
                 snapshot_write = (\<lambda>n. DumpFails no_space_error) \<rparr>"

definition unclosed_paragraphs :: "event list" where
  "unclosed_paragraphs = [StartTag ''p'' [], Data ''one'', StartTag ''p'' [], Data ''two'']"

definition stray_paragraph_end :: "event list" where
  "stray_paragraph_end = [StartTag ''p'' [], Data ''a'', EndTag ''p'', EndTag ''p'']"

definition empty_href_anchor :: "event list" where
  "empty_href_anchor = [StartTag ''a'' [(''href'', Some '''')], Data ''home'', EndTag ''a'']"

definition world0 :: world where
  "world0 = \<lparr> clock_reads = 0, opens = 0, snapshot = None, logged = [] \<rparr>"

definition two_descriptions :: "event list" where
  "two_descriptions =
     [StartTag ''meta'' [(''name'', Some ''description''), (''content'', Some ''first'')],
      StartTag ''meta'' [(''name'', Some ''Description''), (''content'', Some ''second'')]]"

definition two_titles :: "block list" where
  "two_titles = [Element ''title'' [] [Data ''A''], Element ''title'' [] [Data ''B'']]"


definition many_paragraphs :: "block list" where
  "many_paragraphs =
     Element ''p'' [] [Data ''  ''] #
     Element ''p'' [] [Data '' a '', StartTag ''b'' [], Data ''b'', EndTag ''b''] #
     replicate 11 (Element ''p'' [] [Data '' x ''])"

definition anchor :: "string \<Rightarrow> event list" where
  "anchor h = [StartTag ''a'' [(''href'', Some h)], Data ''t'', EndTag ''a'']"

definition many_anchors :: "event list" where
  "many_anchors =
     anchor ''first'' @ [StartTag ''a'' [(''class'', Some ''c'')], EndTag ''a''] @
     concat (replicate 20 (anchor ''u''))"

section \<open>Basic facts\<close>

lemma feed_Nil: "feed s [] = s"
  by (simp add: feed_def)

lemma feed_Cons: "feed s (e # es) = feed (handle s e) es"
  by (simp add: feed_def)

lemma feed_append: "feed s (xs @ ys) = feed (feed s xs) ys"
  by (simp add: feed_def)

lemma feed_snoc: "feed s (xs @ [e]) = handle (feed s xs) e"
  by (simp add: feed_def)

section \<open>The description tag\<close>

lemma meta_scan_eq:
  "meta_scan (d, c) as =
     (d \<or> names_description as,
      case filter (\<lambda>a. fst a = ''content'') as of [] \<Rightarrow> c | cs \<Rightarrow> snd (last cs))"
proof (induction as arbitrary: d c)
  case Nil
  then show ?case by (simp add: names_description_def)
next
  case (Cons a as)
  obtain n v where a: "a = (n, v)" by (cases a)
  show ?case
    unfolding a
    by (cases v) (auto simp: Cons.IH names_description_def split: list.splits)
qed

lemma meta_scan_init: "meta_scan (False, None) as = (names_description as, content_attr as)"
  by (simp add: meta_scan_eq content_attr_def)

lemma handle_starttag_meta:
  "handle_starttag s ''meta'' as =
     (if names_description as \<and> truthy (content_attr as)
      then s\<lparr>meta_description := content_attr as\<rparr> else s)"
  by (simp add: handle_starttag_def meta_scan_init is_heading_tag_def startswith_def)

lemma not_heading_title [simp]: "\<not> is_heading_tag ''title''" "\<not> is_heading_tag ''a''"
  "\<not> is_heading_tag ''p''" "\<not> is_heading_tag ''meta''"
  by (simp_all add: is_heading_tag_def)

lemma meta_description_handle:
  "meta_description (handle s e) =
     (if descriptions [e] = [] then meta_description s else Some (last (descriptions [e])))"
proof (cases e)
  case (StartTag tag as)
  show ?thesis
  proof (cases "tag = ''meta''")
    case True
    then show ?thesis
      by (auto simp: StartTag handle_starttag_meta truthy_def split: option.splits)
  next
    case False
    then show ?thesis
      by (auto simp: StartTag handle_starttag_def split: option.splits prod.splits)
  qed
next
  case (EndTag tag)
  then show ?thesis by (simp add: handle_endtag_def Let_def)
next
  case (Data d)
  then show ?thesis by (simp add: handle_data_def Let_def)
qed

lemma descriptions_Cons: "descriptions (e # es) = descriptions [e] @ descriptions es"
  by (cases e) (auto split: option.splits)

lemma meta_description_feed:
  "meta_description (feed s evs) =
     (if descriptions evs = [] then meta_description s else Some (last (descriptions evs)))"
proof (induction evs arbitrary: s)
  case Nil
  then show ?case by (simp add: feed_Nil)
next
  case (Cons e es)
  have "descriptions (e # es) = descriptions [e] @ descriptions es"
    by (rule descriptions_Cons)
  then show ?case
    by (simp add: feed_Cons Cons.IH meta_description_handle del: descriptions.simps)
qed

section \<open>Links\<close>

lemma map_butlast_last: "xs \<noteq> [] \<Longrightarrow> map f (butlast xs) @ [f (last xs)] = map f xs"
  by (induction xs) auto

lemma hrefs_Cons: "hrefs (e # es) = hrefs [e] @ hrefs es"
  by (cases e) (auto split: option.splits)

lemma links_handle_hrefs: "map href (links (handle s e)) = map href (links s) @ hrefs [e]"
proof (cases e)
  case (StartTag tag as)
  then show ?thesis
    by (auto simp: handle_starttag_def split: option.splits prod.splits)
next
  case (EndTag tag)
  then show ?thesis by (simp add: handle_endtag_def Let_def)
next
  case (Data d)
  show ?thesis
  proof -
    show ?thesis
      using Data by (auto simp: handle_data_def Let_def map_butlast_last)
  qed
qed

lemma links_feed_hrefs: "map href (links (feed s evs)) = map href (links s) @ hrefs evs"
proof (induction evs arbitrary: s)
  case Nil
  then show ?case by (simp add: feed_Nil)
next
  case (Cons e es)
  show ?case
    by (simp only: feed_Cons Cons.IH links_handle_hrefs) (simp add: hrefs_Cons[of e es])
qed

lemma links_handle_keeps:
  assumes "i < length (links s)" "link_text (links s ! i) \<noteq> []"
  shows "i < length (links (handle s e)) \<and> links (handle s e) ! i = links s ! i"
proof (cases e)
  case (StartTag tag as)
  with assms show ?thesis
    by (auto simp: handle_starttag_def nth_append split: option.splits prod.splits)
next
  case (EndTag tag)
  with assms show ?thesis by (simp add: handle_endtag_def Let_def)
next
  case (Data d)
  show ?thesis
  proof (cases "links s \<noteq> [] \<and> link_text (last (links s)) = []")
    case True
    then have "i \<noteq> length (links s) - 1"
      using assms by (auto simp: last_conv_nth)
    with assms have "i < length (butlast (links s))" by simp
    with True show ?thesis
      using assms by (auto simp: Data handle_data_def Let_def nth_append nth_butlast)
  next
    case False
    with assms show ?thesis
      by (auto simp: Data handle_data_def Let_def)
  qed
qed

lemma links_feed_keeps:
  "i < length (links s) \<Longrightarrow> link_text (links s ! i) \<noteq> [] \<Longrightarrow>
   i < length (links (feed s evs)) \<and> links (feed s evs) ! i = links s ! i"
proof (induction evs arbitrary: s)
  case Nil
  then show ?case by (simp add: feed_Nil)
next
  case (Cons e es)
  from links_handle_keeps [OF Cons.prems, of e]
  have 1: "i < length (links (handle s e))" and 2: "links (handle s e) ! i = links s ! i"
    by simp_all
  from Cons.prems 2 have 3: "link_text (links (handle s e) ! i) \<noteq> []" by simp
  from Cons.IH [OF 1 3] 2 show ?case by (simp add: feed_Cons)
qed

lemma links_handle_data:
  "links s \<noteq> [] \<Longrightarrow> link_text (last (links s)) = [] \<Longrightarrow>
   links (handle_data s d) = butlast (links s) @ [(last (links s))\<lparr>link_text := strip d\<rparr>]"
  by (simp add: handle_data_def Let_def)

lemma handle_starttag_a:
  "handle_starttag s ''a'' as =
     (case first_href as of
        None \<Rightarrow> s
      | Some h \<Rightarrow> if h \<noteq> [] then s\<lparr>links := links s @ [\<lparr>link_text = '''', href = h\<rparr>]\<rparr> else s)"
  by (simp add: handle_starttag_def)

lemma first_href_absent: "''href'' \<notin> fst ` set as \<Longrightarrow> first_href as = None"
proof -
  assume "''href'' \<notin> fst ` set as"
  then have "find (\<lambda>a. fst a = ''href'') as = None"
    unfolding find_None_iff by (metis fst_conv image_eqI prod.collapse)
  then show ?thesis by (simp add: first_href_def)
qed

section \<open>Documents of sibling elements\<close>

lemma text_of_Cons: "text_of (e # es) = text_of [e] @ text_of es"
  by (cases e) simp_all

lemma handle_inline:
  assumes "\<not> structural e"
  shows "in_title (handle s e) = in_title s"
    and "in_heading (handle s e) = in_heading s"
    and "in_paragraph (handle s e) = in_paragraph s"
    and "headings (handle s e) = headings s"
    and "paragraphs (handle s e) = paragraphs s"
    and "title (handle s e) = (if in_title s then title s @ text_of [e] else title s)"
    and "current_heading (handle s e) =
           (if \<not> in_title s \<and> in_heading s then current_heading s @ text_of [e]
            else current_heading s)"
    and "current_paragraph (handle s e) =
           (if \<not> in_title s \<and> \<not> in_heading s \<and> in_paragraph s
            then current_paragraph s @ text_of [e] else current_paragraph s)"
  using assms
  by (cases e; auto simp: handle_starttag_def handle_endtag_def handle_data_def
        structural_tag_def Let_def split: option.splits prod.splits)+

lemma feed_inline:
  assumes "list_all (\<lambda>e. \<not> structural e) c"
  shows "in_title (feed s c) = in_title s"
    and "in_heading (feed s c) = in_heading s"
    and "in_paragraph (feed s c) = in_paragraph s"
    and "headings (feed s c) = headings s"
    and "paragraphs (feed s c) = paragraphs s"
    and "title (feed s c) = (if in_title s then title s @ text_of c else title s)"
    and "current_heading (feed s c) =
           (if \<not> in_title s \<and> in_heading s then current_heading s @ text_of c
            else current_heading s)"
    and "current_paragraph (feed s c) =
           (if \<not> in_title s \<and> \<not> in_heading s \<and> in_paragraph s
            then current_paragraph s @ text_of c else current_paragraph s)"
  using assms
proof (induction c arbitrary: s)
  case Nil
  {
    case 1 show ?case by (simp add: feed_Nil) next
    case 2 show ?case by (simp add: feed_Nil) next
    case 3 show ?case by (simp add: feed_Nil) next
    case 4 show ?case by (simp add: feed_Nil) next
    case 5 show ?case by (simp add: feed_Nil) next
    case 6 show ?case by (simp add: feed_Nil) next
    case 7 show ?case by (simp add: feed_Nil) next
    case 8 show ?case by (simp add: feed_Nil)
  }
next
  case (Cons e es)
  {
    case 1 then show ?case by (simp add: feed_Cons Cons.IH handle_inline) next
    case 2 then show ?case by (simp add: feed_Cons Cons.IH handle_inline) next
    case 3 then show ?case by (simp add: feed_Cons Cons.IH handle_inline) next
    case 4 then show ?case by (simp add: feed_Cons Cons.IH handle_inline) next
    case 5 then show ?case by (simp add: feed_Cons Cons.IH handle_inline) next
    case 6 then show ?case
      by (simp add: feed_Cons Cons.IH handle_inline text_of_Cons [of e es] del: text_of.simps) next
    case 7 then show ?case
      by (simp add: feed_Cons Cons.IH handle_inline text_of_Cons [of e es] del: text_of.simps) next
    case 8 then show ?case
      by (simp add: feed_Cons Cons.IH handle_inline text_of_Cons [of e es] del: text_of.simps)
  }
qed

lemma texts_Cons: "texts P (b # bs) = texts P [b] @ texts P bs"
  by (cases b) simp_all

lemma nonempty_trimmed_append:
  "nonempty_trimmed (xs @ ys) = nonempty_trimmed xs @ nonempty_trimmed ys"
  by (simp add: nonempty_trimmed_def)

lemma feed_element:
  "feed s (events (Element tag as c)) = handle_endtag (feed (handle_starttag s tag as) c) tag"
  by (simp add: feed_Cons feed_snoc)

lemma starttag_other:
  "\<not> structural_tag tag \<Longrightarrow>
     in_title (handle_starttag s tag as) = in_title s \<and>
     in_heading (handle_starttag s tag as) = in_heading s \<and>
     in_paragraph (handle_starttag s tag as) = in_paragraph s \<and>
     title (handle_starttag s tag as) = title s \<and>
     headings (handle_starttag s tag as) = headings s \<and>
     paragraphs (handle_starttag s tag as) = paragraphs s"
  by (auto simp: handle_starttag_def structural_tag_def split: option.splits prod.splits)

lemma feed_block:
  assumes "flags_clear s" "wf_block b"
  shows "flags_clear (feed s (events b)) \<and>
         title (feed s (events b)) = title s @ concat (texts (\<lambda>t. t = ''title'') [b]) \<and>
         headings (feed s (events b)) = headings s @ nonempty_trimmed (texts is_heading_tag [b]) \<and>
         paragraphs (feed s (events b)) = paragraphs s @ nonempty_trimmed (texts (\<lambda>t. t = ''p'') [b])"
proof (cases b)
  case (Other e)
  with assms have "\<not> structural e" by simp
  from handle_inline [OF this, of s] assms(1) show ?thesis
    by (simp add: Other feed_Cons feed_Nil flags_clear_def nonempty_trimmed_def)
next
  case (Element tag as c)
  with assms have c: "list_all (\<lambda>e. \<not> structural e) c" by simp
  note fi = feed_inline [OF c]
  consider (title) "tag = ''title''" | (heading) "is_heading_tag tag" | (p) "tag = ''p''"
    | (other) "\<not> structural_tag tag"
    by (auto simp: structural_tag_def)
  then show ?thesis
  proof cases
    case title
    with assms(1) show ?thesis
      unfolding Element feed_element
      by (simp add: handle_endtag_def handle_starttag_def fi flags_clear_def nonempty_trimmed_def)
  next
    case heading
    then have "tag \<noteq> ''title''" "tag \<noteq> ''p''" by auto
    with heading assms(1) show ?thesis
      unfolding Element feed_element
      by (simp add: handle_endtag_def handle_starttag_def fi flags_clear_def nonempty_trimmed_def Let_def)
  next
    case p
    with assms(1) show ?thesis
      unfolding Element feed_element
      by (simp add: handle_endtag_def handle_starttag_def fi flags_clear_def nonempty_trimmed_def Let_def)
  next
    case other
    then have nt: "tag \<noteq> ''title''" "\<not> is_heading_tag tag" "tag \<noteq> ''p''"
      by (auto simp: structural_tag_def)
    from starttag_other [OF other, of s as] nt assms(1) show ?thesis
      unfolding Element feed_element
      by (simp add: handle_endtag_def fi flags_clear_def nonempty_trimmed_def)
  qed
qed

lemma document_Cons: "document (b # bs) = events b @ document bs"
  by (simp add: document_def)

lemma feed_document:
  "flags_clear s \<Longrightarrow> list_all wf_block bs \<Longrightarrow>
     flags_clear (feed s (document bs)) \<and>
     title (feed s (document bs)) = title s @ concat (texts (\<lambda>t. t = ''title'') bs) \<and>
     headings (feed s (document bs)) = headings s @ nonempty_trimmed (texts is_heading_tag bs) \<and>
     paragraphs (feed s (document bs)) = paragraphs s @ nonempty_trimmed (texts (\<lambda>t. t = ''p'') bs)"
proof (induction bs arbitrary: s)
  case Nil
  then show ?case by (simp add: document_def feed_Nil nonempty_trimmed_def)
next
  case (Cons b bs)
  then have wf: "wf_block b" "list_all wf_block bs" by simp_all
  note b = feed_block [OF Cons.prems(1) wf(1)]
  from b have fc: "flags_clear (feed s (events b))" by simp
  note ih = Cons.IH [OF fc wf(2)]
  have t: "\<And>P. texts P (b # bs) = texts P [b] @ texts P bs" by (rule texts_Cons)
  show ?case
    using b ih
    by (simp add: document_Cons feed_append t nonempty_trimmed_append del: texts.simps)
qed

lemma flags_clear_init: "flags_clear init"
  by (simp add: flags_clear_def init_def)

lemma last_dropWhile: "dropWhile P xs \<noteq> [] \<Longrightarrow> last (dropWhile P xs) = last xs"
  by (induction xs) auto

lemma strip_ends:
  assumes "strip s \<noteq> []"
  shows "\<not> py_isspace (hd (strip s)) \<and> \<not> py_isspace (last (strip s))"
proof -
  define x where "x = lstrip s"
  define y where "y = lstrip (rev x)"
  have s: "strip s = rev y" by (simp add: strip_def x_def y_def)
  with assms have y: "y \<noteq> []" by simp
  then have x: "x \<noteq> []" by (auto simp: y_def lstrip_def)
  from y have "\<not> py_isspace (hd y)"
    unfolding y_def lstrip_def by (rule hd_dropWhile)
  moreover from x have "\<not> py_isspace (hd x)"
    unfolding x_def lstrip_def by (rule hd_dropWhile)
  moreover from y have "last y = last (rev x)"
    unfolding y_def lstrip_def by (rule last_dropWhile)
  ultimately show ?thesis
    using x y by (simp add: s hd_rev last_rev)
qed

lemma nonempty_trimmed_ends:
  "x \<in> set (nonempty_trimmed ts) \<Longrightarrow> x \<noteq> [] \<and> \<not> py_isspace (hd x) \<and> \<not> py_isspace (last x)"
  using strip_ends by (auto simp: nonempty_trimmed_def)

lemma paragraphs_document:
  "list_all wf_block bs \<Longrightarrow>
   paragraphs (feed init (document bs)) = nonempty_trimmed (texts (\<lambda>tag. tag = ''p'') bs)"
  using feed_document [OF flags_clear_init, of bs] by (simp add: init_def)


lemma title_document:
  "list_all wf_block bs \<Longrightarrow>
   title (feed init (document bs)) = concat (texts (\<lambda>tag. tag = ''title'') bs)"
  using feed_document [OF flags_clear_init, of bs] by (simp add: init_def)





section \<open>The except clauses\<close>

lemma except_handler_result:
  "fst (except_handler prefix e u ex w) =
     (case snapshot_write e (opens w) of
        OpenFails ex2 \<Rightarrow> Inl ex2
      | DumpFails ex2 \<Rightarrow> Inl ex2
      | Written \<Rightarrow> Inr (Failed u (now e (clock_reads w))
                  \<lparr>error_message = exn_str ex, error_type = exn_type_name ex\<rparr>))"
  by (simp add: except_handler_def read_clock_def write_snapshot_def log_msg_def Let_def
      split: write_outcome.splits)

lemma except_handler_snapshot:
  "snapshot (snd (except_handler prefix e u ex w)) =
     (case snapshot_write e (opens w) of
        OpenFails ex2 \<Rightarrow> snapshot w
      | DumpFails ex2 \<Rightarrow> Some Incomplete
      | Written \<Rightarrow> Some (Dumped (Failed u (now e (clock_reads w))
                  \<lparr>error_message = exn_str ex, error_type = exn_type_name ex\<rparr>)))"
  by (simp add: except_handler_def read_clock_def write_snapshot_def log_msg_def Let_def
      split: write_outcome.splits)

lemma scrape_website_fetch_error:
  "urlopen_read e u = Inl ex \<Longrightarrow>
   scrape_website e u w =
     except_clauses e u ex (log_msg INFO (''Starting to fetch: '' @ u) w)"
  by (simp add: scrape_website_def Let_def)

section \<open>The claims\<close>

subsection \<open>C1: the meta description\<close>

text \<open>
  C1, as amended. The extracted \<open>metaDescription\<close> is the content of the last
  \<open>meta\<close> tag of the document that names a description and carries a non-empty content,
  and \<open>None\<close> when the document has no such tag: every such tag replaces the recorded value.
\<close>

theorem meta_description_last_match:
  "metaDescription (build_data u t (feed init evs)) =
     (if descriptions evs = [] then None else Some (last (descriptions evs)))"
  by (simp add: build_data_def meta_description_feed init_def)

text \<open>
  C1 as stated fails on a document with two description tags: the first one does not win.
\<close>

theorem meta_description_first_match_counterexample:
  "descriptions two_descriptions = [''first'', ''second'']
   \<and> metaDescription (build_data '''' '''' (feed init two_descriptions)) \<noteq> Some ''first''"
  by code_simp

theorem meta_description_last_match_witness:
  "metaDescription (build_data '''' '''' (feed init two_descriptions)) = Some ''second''"
proof -
  have "descriptions two_descriptions = [''first'', ''second'']" by code_simp
  with meta_description_last_match [of "''''" "''''" two_descriptions] show ?thesis by simp
qed

subsection \<open>C2: the title\<close>

text \<open>
  C2, as amended. An opening \<open>title\<close> tag leaves the text accumulated so far in place, so
  the extracted title is the untrimmed concatenation of the texts of all \<open>title\<close> elements
  of the document, in document order; in particular, for a document with a single
  \<open>title\<close> element of text \<open>x\<close> the extracted title is \<open>x\<close>, with no trimming applied.
\<close>

theorem title_accumulates:
  "title (handle_starttag s ''title'' as) = title s
   \<and> (list_all wf_block bs \<longrightarrow>
        page_title (build_data u t (feed init (document bs))) =
          concat (texts (\<lambda>tag. tag = ''title'') bs))
   \<and> (list_all wf_block bs \<and> texts (\<lambda>tag. tag = ''title'') bs = [x] \<longrightarrow>
        page_title (build_data u t (feed init (document bs))) = x)"
  by (simp add: handle_starttag_def build_data_def title_document)

text \<open>
  C2 as stated fails: the second opening \<open>title\<close> tag of a document does not reset the
  title, and the extracted title is not the text of the first \<open>title\<close> element.
\<close>

theorem title_reset_counterexample:
  "title (handle_starttag (feed init (events (Element ''title'' [] [Data ''A'']))) ''title'' []) = ''A''
   \<and> page_title (build_data '''' '''' (feed init (document two_titles))) = ''AB''"
  by code_simp

theorem title_accumulates_witness:
  "list_all wf_block two_titles
   \<and> page_title (build_data '''' '''' (feed init (document two_titles))) = ''A'' @ ''B''
   \<and> list_all wf_block [Element ''title'' [] [Data '' x '']]
   \<and> texts (\<lambda>tag. tag = ''title'') [Element ''title'' [] [Data '' x '']] = ['' x '']
   \<and> page_title (build_data '''' '''' (feed init (document [Element ''title'' [] [Data '' x '']]))) = '' x ''"
proof -
  have 1: "list_all wf_block two_titles" by code_simp
  have 2: "texts (\<lambda>tag. tag = ''title'') two_titles = [''A'', ''B'']" by code_simp
  have 3: "list_all wf_block [Element ''title'' [] [Data '' x '']]" by code_simp
  have 4: "texts (\<lambda>tag. tag = ''title'') [Element ''title'' [] [Data '' x '']] = ['' x '']"
    by simp
  from title_accumulates [of init "[]" two_titles "''''" "''''" "''AB''"] 1 2
  have 5: "page_title (build_data '''' '''' (feed init (document two_titles))) = ''A'' @ ''B''"
    by simp
  from title_accumulates [of init "[]" "[Element ''title'' [] [Data '' x '']]" "''''" "''''" "'' x ''"] 3 4
  have 6: "page_title (build_data '''' '''' (feed init (document [Element ''title'' [] [Data '' x '']]))) = '' x ''"
    by simp
  from 1 3 4 5 6 show ?thesis by simp
qed

subsection \<open>C3: anchors\<close>

text \<open>
  C3, as amended. An opening \<open>a\<close> tag whose first \<open>href\<close> attribute has a non-empty value
  \<open>h\<close> appends the entry with empty text and address \<open>h\<close> to the links at once, and the
  next character data fills in its text, trimmed; an opening \<open>a\<close> tag with no \<open>href\<close>
  attribute, or whose first \<open>href\<close> attribute has an empty value, leaves the parser as it is.
\<close>

theorem anchor_appends_link:
  "(first_href as = Some h \<and> h \<noteq> [] \<longrightarrow>
      links (handle_starttag s ''a'' as) = links s @ [\<lparr>link_text = '''', href = h\<rparr>]
      \<and> links (handle_data (handle_starttag s ''a'' as) d) =
          links s @ [\<lparr>link_text = strip d, href = h\<rparr>])
   \<and> (first_href as = None \<or> first_href as = Some [] \<longrightarrow> handle_starttag s ''a'' as = s)"
  by (auto simp: handle_starttag_a handle_data_def Let_def)

text \<open>
  C3 as stated fails on an anchor whose \<open>href\<close> attribute is present and empty: no entry
  is appended.
\<close>

theorem anchor_empty_href_counterexample:
  "''href'' \<in> fst ` set [(''href'', Some '''')]
   \<and> links (handle_starttag init ''a'' [(''href'', Some '''')]) = []"
  by (simp add: handle_starttag_a first_href_def init_def)

theorem anchor_appends_link_witness:
  "first_href [(''class'', Some ''c''), (''href'', Some ''/x'')] = Some ''/x''
   \<and> links (handle_starttag init ''a'' [(''class'', Some ''c''), (''href'', Some ''/x'')]) =
       [\<lparr>link_text = '''', href = ''/x''\<rparr>]
   \<and> links (handle_data (handle_starttag init ''a'' [(''class'', Some ''c''), (''href'', Some ''/x'')]) '' more '') =
       [\<lparr>link_text = ''more'', href = ''/x''\<rparr>]
   \<and> first_href [(''href'', Some '''')] = Some []
   \<and> handle_starttag init ''a'' [(''href'', Some '''')] = init"
proof -
  have 1: "first_href [(''class'', Some ''c''), (''href'', Some ''/x'')] = Some ''/x''"
    by (simp add: first_href_def)
  have 2: "first_href [(''href'', Some '''')] = Some []"
    by (simp add: first_href_def)
  have 3: "strip '' more '' = ''more''" by code_simp
  have 4: "links init = []" by (simp add: init_def)
  from anchor_appends_link
         [of "[(''class'', Some ''c''), (''href'', Some ''/x'')]" "''/x''" init "'' more ''"]
       anchor_appends_link [of "[(''href'', Some '''')]" "[]" init "[]"] 1 2 3 4
  show ?thesis by simp
qed

subsection \<open>C4: the first heading\<close>




subsection \<open>C5: the text of a link\<close>

text \<open>
  C5. Character data that arrives while the links are not empty and the entry appended
  last has an empty text sets that entry's text to the trimmed data, whatever the state of
  the parser otherwise; and an entry whose text is not empty is left as it is by every
  later handler call.
\<close>

theorem link_text_set_once:
  "(links s \<noteq> [] \<and> link_text (last (links s)) = [] \<longrightarrow>
      links (handle_data s d) = butlast (links s) @ [(last (links s))\<lparr>link_text := strip d\<rparr>])
   \<and> (i < length (links s) \<and> link_text (links s ! i) \<noteq> [] \<longrightarrow>
      i < length (links (feed s evs)) \<and> links (feed s evs) ! i = links s ! i)"
  using links_handle_data links_feed_keeps by blast

theorem link_text_set_once_witness:
  "links (feed init [StartTag ''a'' [(''href'', Some ''/x'')], EndTag ''a'']) \<noteq> []
   \<and> link_text (last (links (feed init [StartTag ''a'' [(''href'', Some ''/x'')], EndTag ''a'']))) = []
   \<and> links (handle_data (feed init [StartTag ''a'' [(''href'', Some ''/x'')], EndTag ''a'']) '' after '') =
       [\<lparr>link_text = ''after'', href = ''/x''\<rparr>]
   \<and> link_text (links (feed init (anchor ''/x'')) ! 0) \<noteq> []
   \<and> links (feed (feed init (anchor ''/x'')) [Data ''more'', StartTag ''a'' [(''href'', Some ''/y'')], Data ''z'']) ! 0 =
       \<lparr>link_text = ''t'', href = ''/x''\<rparr>"
proof -
  define s1 where "s1 = feed init [StartTag ''a'' [(''href'', Some ''/x'')], EndTag ''a'']"
  define s2 where "s2 = feed init (anchor ''/x'')"
  have 1: "links s1 = [\<lparr>link_text = '''', href = ''/x''\<rparr>]"
    unfolding s1_def by code_simp
  have 2: "links s2 = [\<lparr>link_text = ''t'', href = ''/x''\<rparr>]"
    unfolding s2_def by code_simp
  have 3: "strip '' after '' = ''after''" by code_simp
  from link_text_set_once [of s1 "'' after ''" 0 "[]"] 1 3
  have 4: "links (handle_data s1 '' after '') = [\<lparr>link_text = ''after'', href = ''/x''\<rparr>]"
    by simp
  from link_text_set_once
         [of s2 "[]" 0 "[Data ''more'', StartTag ''a'' [(''href'', Some ''/y'')], Data ''z'']"] 2
  have 5: "links (feed s2 [Data ''more'', StartTag ''a'' [(''href'', Some ''/y'')], Data ''z'']) ! 0 =
             \<lparr>link_text = ''t'', href = ''/x''\<rparr>"
    by simp
  from 1 2 4 5 show ?thesis
    unfolding s1_def s2_def by simp
qed

subsection \<open>C6: paragraphs\<close>

text \<open>
  C6, as amended. For a document whose \<open>title\<close>, heading and \<open>p\<close> elements are written with
  both of their tags and do not lie inside one another, and whose \<open>p\<close> elements have \<open>N\<close>
  texts that are not empty after trimming, the extracted paragraphs are the first
  \<open>min N 10\<close> of these texts, in document order, each trimmed: no entry is empty, starts
  with whitespace or ends with whitespace. The paragraphs that are empty after trimming
  are left out, and are not counted in \<open>N\<close>.
\<close>

theorem paragraphs_first_ten:
  assumes "list_all wf_block bs"
  shows "page_paragraphs (build_data u t (feed init (document bs))) =
           take 10 (nonempty_trimmed (texts (\<lambda>tag. tag = ''p'') bs))
         \<and> length (page_paragraphs (build_data u t (feed init (document bs)))) =
           min (length (nonempty_trimmed (texts (\<lambda>tag. tag = ''p'') bs))) 10
         \<and> (\<forall>x \<in> set (page_paragraphs (build_data u t (feed init (document bs)))).
              x \<noteq> [] \<and> \<not> py_isspace (hd x) \<and> \<not> py_isspace (last x))"
  using nonempty_trimmed_ends
  by (auto simp: build_data_def paragraphs_document [OF assms] dest!: in_set_takeD)

text \<open>
  C6 as stated fails on documents outside that condition: two \<open>p\<close> elements whose closing
  tags are left out give no paragraph, and one \<open>p\<close> element followed by a second closing
  tag gives its text twice.
\<close>

theorem paragraphs_unclosed_counterexample:
  "page_paragraphs (build_data '''' '''' (feed init unclosed_paragraphs)) = []
   \<and> page_paragraphs (build_data '''' '''' (feed init stray_paragraph_end)) = [''a'', ''a'']"
  by code_simp

theorem paragraphs_first_ten_witness:
  "list_all wf_block many_paragraphs
   \<and> length (nonempty_trimmed (texts (\<lambda>tag. tag = ''p'') many_paragraphs)) = 12
   \<and> page_paragraphs (build_data '''' '''' (feed init (document many_paragraphs))) =
       ''a b'' # replicate 9 ''x''
   \<and> length (page_paragraphs (build_data '''' '''' (feed init (document many_paragraphs)))) = 10"
proof -
  have 1: "list_all wf_block many_paragraphs" by code_simp
  have 2: "nonempty_trimmed (texts (\<lambda>tag. tag = ''p'') many_paragraphs) = ''a b'' # replicate 11 ''x''"
    by code_simp
  have 3: "take 10 (''a b'' # replicate 11 ''x'') = ''a b'' # replicate 9 ''x''"
    by code_simp
  from paragraphs_first_ten [OF 1, of "''''" "''''"] 1 2 3 show ?thesis
    by simp
qed

subsection \<open>C7: links\<close>

text \<open>
  C7, as amended. For a document with \<open>M\<close> anchors whose first \<open>href\<close> attribute has a
  non-empty value, the extracted links have \<open>min M 20\<close> entries, the addresses of the first
  of these anchors in document order; an anchor without an \<open>href\<close> attribute, or whose first
  \<open>href\<close> attribute is without a value or empty, adds nothing.
\<close>

theorem links_first_twenty:
  "map href (page_links (build_data u t (feed init evs))) = take 20 (hrefs evs)
   \<and> length (page_links (build_data u t (feed init evs))) = min (length (hrefs evs)) 20
   \<and> (''href'' \<notin> fst ` set as \<longrightarrow> handle_starttag s ''a'' as = s)
   \<and> (first_href as = None \<or> first_href as = Some [] \<longrightarrow> handle_starttag s ''a'' as = s)"
proof -
  have "map href (links (feed init evs)) = hrefs evs"
    by (simp add: links_feed_hrefs init_def)
  moreover from this have "length (links (feed init evs)) = length (hrefs evs)"
    by (metis length_map)
  ultimately show ?thesis
    by (auto simp: build_data_def take_map [symmetric] first_href_absent handle_starttag_a)
qed

text \<open>
  C7 as stated fails on a document whose only anchor carries an empty \<open>href\<close>, or an \<open>href\<close>
  without a value: the document has one anchor with an \<open>href\<close> attribute and a text, and the
  extracted links are empty.
\<close>

theorem links_empty_href_counterexample:
  "''href'' \<in> fst ` set [(''href'', Some '''')]
   \<and> empty_href_anchor = [StartTag ''a'' [(''href'', Some '''')], Data ''home'', EndTag ''a'']
   \<and> page_links (build_data '''' '''' (feed init empty_href_anchor)) = []
   \<and> page_links (build_data '''' ''''
        (feed init [StartTag ''a'' [(''href'', None)], Data ''home'', EndTag ''a''])) = []"
proof -
  have "page_links (build_data '''' '''' (feed init empty_href_anchor)) = []" by code_simp
  moreover have "page_links (build_data '''' ''''
        (feed init [StartTag ''a'' [(''href'', None)], Data ''home'', EndTag ''a''])) = []"
    by code_simp
  ultimately show ?thesis by (simp add: empty_href_anchor_def)
qed

theorem links_first_twenty_witness:
  "length (hrefs many_anchors) = 21
   \<and> map href (page_links (build_data '''' '''' (feed init many_anchors))) =
       ''first'' # replicate 19 ''u''
   \<and> length (page_links (build_data '''' '''' (feed init many_anchors))) = 20
   \<and> ''href'' \<notin> fst ` set [(''class'', Some ''c'')]
   \<and> handle_starttag init ''a'' [(''class'', Some ''c'')] = init
   \<and> first_href [(''href'', Some '''')] = Some []
   \<and> handle_starttag init ''a'' [(''href'', Some '''')] = init"
proof -
  have 1: "hrefs many_anchors = ''first'' # replicate 20 ''u''" by code_simp
  have 2: "take 20 (''first'' # replicate 20 ''u'') = ''first'' # replicate 19 ''u''"
    by code_simp
  have 3: "''href'' \<notin> fst ` set [(''class'', Some ''c'')]" by simp
  have 4: "first_href [(''href'', Some '''')] = Some []" by (simp add: first_href_def)
  from links_first_twenty [of "''''" "''''" many_anchors "[(''class'', Some ''c'')]" init]
       links_first_twenty [of "''''" "''''" many_anchors "[(''href'', Some '''')]" init]
       1 2 3 4
  show ?thesis by simp
qed

subsection \<open>C8: a fetch that fails\<close>

text \<open>
  C8, as amended. When the fetch raises a \<open>URLError\<close> and the write of the snapshot file
  completes, \<open>scrape_website\<close> returns the failure record of the URL, whose type is the
  name of the exception's class and whose message is its description, and the snapshot
  file holds that record. When the write raises, its exception leaves \<open>scrape_website\<close>:
  the snapshot file is as it was when \<open>open\<close> raised, and incomplete when the file was
  opened and \<open>json.dump\<close> or the closing of the file raised.
\<close>

theorem network_error_recorded:
  assumes "urlopen_read e u = Inl ex" and "exn_is_url_error ex"
  shows "(snapshot_write e (opens w) = Written \<longrightarrow>
            fst (scrape_website e u w) =
              Inr (Failed u (now e (clock_reads w))
                    \<lparr>error_message = exn_str ex, error_type = exn_type_name ex\<rparr>)
            \<and> snapshot (snd (scrape_website e u w)) =
              Some (Dumped (Failed u (now e (clock_reads w))
                    \<lparr>error_message = exn_str ex, error_type = exn_type_name ex\<rparr>)))
         \<and> (snapshot_write e (opens w) = OpenFails ex2 \<longrightarrow>
            fst (scrape_website e u w) = Inl ex2
            \<and> snapshot (snd (scrape_website e u w)) = snapshot w)
         \<and> (snapshot_write e (opens w) = DumpFails ex2 \<longrightarrow>
            fst (scrape_website e u w) = Inl ex2
            \<and> snapshot (snd (scrape_website e u w)) = Some Incomplete)"
  using assms
  by (simp add: scrape_website_fetch_error except_clauses_def except_handler_result
      except_handler_snapshot log_msg_def)

text \<open>
  C8 as stated fails where the snapshot file cannot be written: the fetch raises a
  \<open>URLError\<close>, and \<open>scrape_website\<close> raises the \<open>PermissionError\<close> of \<open>open\<close> and leaves
  no snapshot file.
\<close>

theorem network_error_unwritable_counterexample:
  "urlopen_read read_only ''http://example.invalid/'' = Inl url_error
   \<and> exn_is_url_error url_error
   \<and> fst (scrape_website read_only ''http://example.invalid/'' world0) = Inl permission_error
   \<and> snapshot (snd (scrape_website read_only ''http://example.invalid/'' world0)) = None"
  by (simp add: scrape_website_fetch_error except_clauses_def except_handler_result
      except_handler_snapshot log_msg_def read_only_def url_error_def world0_def)

theorem network_error_recorded_witness:
  "urlopen_read unreachable ''http://example.invalid/'' = Inl url_error
   \<and> exn_is_url_error url_error
   \<and> snapshot_write unreachable (opens world0) = Written
   \<and> fst (scrape_website unreachable ''http://example.invalid/'' world0) =
       Inr (Failed ''http://example.invalid/'' ''2024-01-01T00:00:00''
             \<lparr>error_message = ''<urlopen error [Errno 111] Connection refused>'',
              error_type = ''URLError''\<rparr>)
   \<and> snapshot (snd (scrape_website unreachable ''http://example.invalid/'' world0)) =
       Some (Dumped (Failed ''http://example.invalid/'' ''2024-01-01T00:00:00''
             \<lparr>error_message = ''<urlopen error [Errno 111] Connection refused>'',
              error_type = ''URLError''\<rparr>))
   \<and> snapshot_write read_only (opens world0) = OpenFails permission_error
   \<and> fst (scrape_website read_only ''http://example.invalid/'' world0) = Inl permission_error
   \<and> snapshot (snd (scrape_website read_only ''http://example.invalid/'' world0)) = snapshot world0
   \<and> snapshot_write disk_full (opens world0) = DumpFails no_space_error
   \<and> fst (scrape_website disk_full ''http://example.invalid/'' world0) = Inl no_space_error
   \<and> snapshot (snd (scrape_website disk_full ''http://example.invalid/'' world0)) = Some Incomplete"
proof -
  let ?u = "''http://example.invalid/''"
  have 1: "urlopen_read unreachable ?u = Inl url_error"
    by (simp add: unreachable_def)
  have 2: "exn_is_url_error url_error" by (simp add: url_error_def)
  have 3: "snapshot_write unreachable (opens world0) = Written" by (simp add: unreachable_def)
  have 4: "now unreachable (clock_reads world0) = ''2024-01-01T00:00:00''"
    by (simp add: unreachable_def)
  have 5: "urlopen_read read_only ?u = Inl url_error"
    by (simp add: read_only_def)
  have 6: "snapshot_write read_only (opens world0) = OpenFails permission_error"
    by (simp add: read_only_def)
  have 7: "urlopen_read disk_full ?u = Inl url_error"
    by (simp add: disk_full_def)
  have 8: "snapshot_write disk_full (opens world0) = DumpFails no_space_error"
    by (simp add: disk_full_def)
  from network_error_recorded [OF 1 2, of world0 permission_error] 3 4
  have a: "fst (scrape_website unreachable ?u world0) =
       Inr (Failed ?u ''2024-01-01T00:00:00''
             \<lparr>error_message = ''<urlopen error [Errno 111] Connection refused>'',
              error_type = ''URLError''\<rparr>)
     \<and> snapshot (snd (scrape_website unreachable ?u world0)) =
       Some (Dumped (Failed ?u ''2024-01-01T00:00:00''
             \<lparr>error_message = ''<urlopen error [Errno 111] Connection refused>'',
              error_type = ''URLError''\<rparr>))"
    by (simp add: url_error_def)
  from network_error_recorded [OF 5 2, of world0 permission_error] 6
  have b: "fst (scrape_website read_only ?u world0) = Inl permission_error
     \<and> snapshot (snd (scrape_website read_only ?u world0)) = snapshot world0"
    by simp
  from network_error_recorded [OF 7 2, of world0 no_space_error] 8
  have c: "fst (scrape_website disk_full ?u world0) = Inl no_space_error
     \<and> snapshot (snd (scrape_website disk_full ?u world0)) = Some Incomplete"
    by simp
  from 1 2 3 6 8 a b c show ?thesis by simp
qed

subsection \<open>C9: the exit status\<close>

text \<open>
  C9. The script exits with status 1 when neither the positional argument nor the
  environment variable gives a URL; with status 0 when \<open>scrape_website\<close> returns, also
  when it returns a failure record; and with status 1 when an exception leaves
  \<open>scrape_website\<close>.
\<close>

theorem exit_status:
  "(\<not> truthy (url_to_scrape argv environ) \<longrightarrow> fst (main e argv environ w) = 1)
   \<and> (url_to_scrape argv environ = Some u \<and> u \<noteq> [] \<and> fst (scrape_website e u w) = Inr r \<longrightarrow>
        fst (main e argv environ w) = 0)
   \<and> (url_to_scrape argv environ = Some u \<and> u \<noteq> [] \<and> fst (scrape_website e u w) = Inl ex \<longrightarrow>
        fst (main e argv environ w) = 1)"
  by (auto simp: main_def truthy_def split: option.splits prod.splits sum.splits)

theorem exit_status_witness:
  "\<not> truthy (url_to_scrape [''fetch_data.py''] Map.empty)
   \<and> fst (main unreachable [''fetch_data.py''] Map.empty world0) = 1
   \<and> url_to_scrape [''fetch_data.py''] [''SCRAPE_URL'' \<mapsto> ''http://example.invalid/''] =
       Some ''http://example.invalid/''
   \<and> fst (scrape_website unreachable ''http://example.invalid/'' world0) =
       Inr (Failed ''http://example.invalid/'' ''2024-01-01T00:00:00''
             \<lparr>error_message = ''<urlopen error [Errno 111] Connection refused>'',
              error_type = ''URLError''\<rparr>)
   \<and> fst (main unreachable [''fetch_data.py''] [''SCRAPE_URL'' \<mapsto> ''http://example.invalid/''] world0) = 0
   \<and> url_to_scrape [''fetch_data.py'', ''http://example.invalid/''] Map.empty =
       Some ''http://example.invalid/''
   \<and> fst (scrape_website read_only ''http://example.invalid/'' world0) = Inl permission_error
   \<and> fst (main read_only [''fetch_data.py'', ''http://example.invalid/''] Map.empty world0) = 1"
proof -
  let ?u = "''http://example.invalid/''"
  let ?r = "Failed ?u ''2024-01-01T00:00:00''
             \<lparr>error_message = ''<urlopen error [Errno 111] Connection refused>'',
              error_type = ''URLError''\<rparr>"
  have 1: "\<not> truthy (url_to_scrape [''fetch_data.py''] Map.empty)"
    by (simp add: url_to_scrape_def truthy_def)
  have 2: "url_to_scrape [''fetch_data.py''] [''SCRAPE_URL'' \<mapsto> ?u] = Some ?u"
    by (simp add: url_to_scrape_def)
  have 3: "fst (scrape_website unreachable ?u world0) = Inr ?r"
    by (simp add: scrape_website_fetch_error except_clauses_def except_handler_result
        log_msg_def unreachable_def url_error_def world0_def)
  have 4: "url_to_scrape [''fetch_data.py'', ?u] Map.empty = Some ?u"
    by (simp add: url_to_scrape_def)
  have 5: "fst (scrape_website read_only ?u world0) = Inl permission_error"
    by (simp add: scrape_website_fetch_error except_clauses_def except_handler_result
        log_msg_def read_only_def url_error_def world0_def)
  have 6: "?u \<noteq> []" by simp
  from exit_status [of "[''fetch_data.py'']" Map.empty unreachable world0 "[]" ?r permission_error] 1
  have 7: "fst (main unreachable [''fetch_data.py''] Map.empty world0) = 1"
    by blast
  from exit_status [of "[''fetch_data.py'']" "[''SCRAPE_URL'' \<mapsto> ?u]" unreachable world0 ?u ?r permission_error]
       2 3 6
  have 8: "fst (main unreachable [''fetch_data.py''] [''SCRAPE_URL'' \<mapsto> ?u] world0) = 0"
    by blast
  from exit_status [of "[''fetch_data.py'', ?u]" Map.empty read_only world0 ?u ?r permission_error]
       4 5 6
  have 9: "fst (main read_only [''fetch_data.py'', ?u] Map.empty world0) = 1"
    by blast
  from 1 2 3 4 5 7 8 9 show ?thesis by blast
qed

subsection \<open>C10: a description tag without content\<close>

text \<open>
  C10. A \<open>meta\<close> tag whose \<open>content\<close> attribute is absent, without a value or empty leaves
  the parser as it is, whatever its \<open>name\<close> attribute: it neither sets the meta description
  nor clears a description recorded before.
\<close>

theorem meta_without_content:
  "\<not> truthy (content_attr as) \<Longrightarrow>
   handle_starttag s ''meta'' as = s
   \<and> meta_description (handle_starttag s ''meta'' as) = meta_description s"
  by (simp add: handle_starttag_meta)

theorem meta_without_content_witness:
  "\<not> truthy (content_attr [(''name'', Some ''description''), (''content'', Some '''')])
   \<and> meta_description (feed init two_descriptions) = Some ''second''
   \<and> meta_description
       (handle_starttag (feed init two_descriptions) ''meta''
          [(''name'', Some ''description''), (''content'', Some '''')]) = Some ''second''
   \<and> \<not> truthy (content_attr [(''name'', Some ''description'')])
   \<and> meta_description (handle_starttag init ''meta'' [(''name'', Some ''description'')]) = None"
proof -
  have 1: "\<not> truthy (content_attr [(''name'', Some ''description''), (''content'', Some '''')])"
    by (simp add: content_attr_def truthy_def)
  have 2: "\<not> truthy (content_attr [(''name'', Some ''description'')])"
    by (simp add: content_attr_def truthy_def)
  have 3: "meta_description (feed init two_descriptions) = Some ''second''" by code_simp
  have 4: "meta_description init = None" by (simp add: init_def)
  from meta_without_content [OF 1, of "feed init two_descriptions"]
       meta_without_content [OF 2, of init] 1 2 3 4
  show ?thesis by simp
qed

end
